theory Spec2Isabelle
  imports Complex_Main
begin

section \<open>Python strings\<close>

text \<open>
  A Python \<^verbatim>\<open>str\<close> is a sequence of Unicode code points. The agent works on
  Chinese text, its regular expressions use \<^verbatim>\<open>\s\<close> and its strings are stripped with
  \<^verbatim>\<open>str.strip\<close>, both of which look at code points beyond ASCII, so a string is modelled
  as the list of its code points. \<open>u\<close> embeds an ASCII literal.
\<close>

type_synonym pystr = "nat list"

definition u :: "string \<Rightarrow> pystr" where
  "u s = map of_char s"

text \<open>
  \<^verbatim>\<open>str.isspace\<close> on one code point. CPython's \<^verbatim>\<open>re\<close> module decides \<^verbatim>\<open>\s\<close> on a
  \<^verbatim>\<open>str\<close> pattern with the same predicate.
\<close>

definition isspace :: "nat \<Rightarrow> bool" where
  "isspace c \<longleftrightarrow>
     (0x09 \<le> c \<and> c \<le> 0x0D) \<or> (0x1C \<le> c \<and> c \<le> 0x20) \<or> c = 0x85 \<or> c = 0xA0 \<or>
     c = 0x1680 \<or> (0x2000 \<le> c \<and> c \<le> 0x200A) \<or> c = 0x2028 \<or> c = 0x2029 \<or>
     c = 0x202F \<or> c = 0x205F \<or> c = 0x3000"

text \<open>\<^verbatim>\<open>s.strip()\<close>: whitespace removed at both ends.\<close>

definition strip :: "pystr \<Rightarrow> pystr" where
  "strip s = rev (dropWhile isspace (rev (dropWhile isspace s)))"

text \<open>\<^verbatim>\<open>s.strip(chars)\<close>: every leading and trailing code point that occurs in \<open>chars\<close>
  is removed.\<close>

definition strip_chars :: "pystr \<Rightarrow> pystr \<Rightarrow> pystr" where
  "strip_chars chars s =
     rev (dropWhile (\<lambda>c. c \<in> set chars) (rev (dropWhile (\<lambda>c. c \<in> set chars) s)))"

text \<open>\<^verbatim>\<open>s.split(sep)\<close> for a separator of one code point.\<close>

fun split_on :: "nat \<Rightarrow> pystr \<Rightarrow> pystr list" where
  "split_on sep [] = [[]]"
| "split_on sep (c # cs) =
     (if c = sep then [] # split_on sep cs
      else (case split_on sep cs of
              [] \<Rightarrow> [[c]]
            | w # ws \<Rightarrow> (c # w) # ws))"

text \<open>\<^verbatim>\<open>str(n)\<close> for an integer: decimal digits, with a minus sign below zero.\<close>

fun digits :: "nat \<Rightarrow> pystr" where
  "digits n = (if n < 10 then [48 + n] else digits (n div 10) @ [48 + n mod 10])"

declare digits.simps [simp del]

definition str_int :: "int \<Rightarrow> pystr" where
  "str_int i = (if i < 0 then 45 # digits (nat (- i)) else digits (nat i))"

section \<open>The regular expressions of the action parser\<close>

text \<open>
  \<^verbatim>\<open>re.search(marker + r"\s*(.*)", text)\<close> for a literal \<open>marker\<close>. The tail
  \<^verbatim>\<open>\s*(.*)\<close> matches at every position (both parts may be empty), so the search
  succeeds exactly at the leftmost occurrence of the marker. \<open>find_after\<close> returns the text
  behind that occurrence.
\<close>

definition starts_with :: "pystr \<Rightarrow> pystr \<Rightarrow> bool" where
  "starts_with s m \<longleftrightarrow> take (length m) s = m"

fun find_after :: "pystr \<Rightarrow> pystr \<Rightarrow> pystr option" where
  "find_after m [] = (if m = [] then Some [] else None)"
| "find_after m (c # cs) =
     (if starts_with (c # cs) m then Some (drop (length m) (c # cs)) else find_after m cs)"

text \<open>
  Group 1 of the match: the greedy \<^verbatim>\<open>\s*\<close> takes all the whitespace behind the marker,
  line feeds included; \<^verbatim>\<open>(.*)\<close> then takes everything up to the next line feed, the only
  code point that \<^verbatim>\<open>.\<close> does not match.
\<close>

definition search_group :: "pystr \<Rightarrow> pystr \<Rightarrow> pystr option" where
  "search_group marker text =
     map_option (\<lambda>rest. takeWhile (\<lambda>c. c \<noteq> 0x0A) (dropWhile isspace rest))
       (find_after marker text)"

definition extract_action :: "pystr \<Rightarrow> pystr \<times> pystr" where
  "extract_action response =
     (let action_match = search_group (u ''Action:'') response;
          action = (case action_match of Some g \<Rightarrow> strip g | None \<Rightarrow> []);
          action_input_match = search_group (u ''Action Input:'') response;
          action_input = (case action_input_match of Some g \<Rightarrow> strip g | None \<Rightarrow> [])
      in (action, action_input))"

section \<open>Python values, exceptions and the library functions the code calls\<close>

datatype pyval =
    PNone
  | PBool bool
  | PInt int
  | PFloat real
  | PStr pystr
  | PList "pyval list"
  | PDict "(pystr \<times> pyval) list"

text \<open>A \<^verbatim>\<open>dict\<close> with string keys keeps its insertion order: an association list
  with distinct keys. Assigning to a key that is present keeps its position.\<close>

fun dict_set :: "pystr \<Rightarrow> pyval \<Rightarrow> (pystr \<times> pyval) list \<Rightarrow> (pystr \<times> pyval) list" where
  "dict_set k v [] = [(k, v)]"
| "dict_set k v ((k', v') # kvs) =
     (if k = k' then (k, v) # kvs else (k', v') # dict_set k v kvs)"

text \<open>Truth value of an object in \<^verbatim>\<open>if x:\<close>.\<close>

fun truthy :: "pyval \<Rightarrow> bool" where
  "truthy PNone = False"
| "truthy (PBool b) = b"
| "truthy (PInt i) = (i \<noteq> 0)"
| "truthy (PFloat x) = (x \<noteq> 0)"
| "truthy (PStr s) = (s \<noteq> [])"
| "truthy (PList xs) = (xs \<noteq> [])"
| "truthy (PDict kvs) = (kvs \<noteq> [])"

fun type_name :: "pyval \<Rightarrow> pystr" where
  "type_name PNone = u ''NoneType''"
| "type_name (PBool b) = u ''bool''"
| "type_name (PInt i) = u ''int''"
| "type_name (PFloat x) = u ''float''"
| "type_name (PStr s) = u ''str''"
| "type_name (PList xs) = u ''list''"
| "type_name (PDict kvs) = u ''dict''"

text \<open>
  A raised exception: its class and the text \<^verbatim>\<open>str(e)\<close>. Only subclasses of
  \<^verbatim>\<open>Exception\<close> are modelled; a function that can raise returns \<open>py_exn + 'a\<close>, with
  \<open>Inl\<close> for the exception.
\<close>

datatype exn_class = JSONDecodeError | TypeError | OtherException pystr

datatype py_exn = PyExn exn_class pystr

fun exn_class_of :: "py_exn \<Rightarrow> exn_class" where
  "exn_class_of (PyExn c msg) = c"

fun exn_str :: "py_exn \<Rightarrow> pystr" where
  "exn_str (PyExn c msg) = msg"

text \<open>
  The functions of the Python runtime that the repository calls and does not define:
  the JSON decoder behind \<^verbatim>\<open>json.loads\<close> on a \<^verbatim>\<open>str\<close>, \<^verbatim>\<open>json.dumps\<close> with the
  options the agent passes (\<^verbatim>\<open>ensure_ascii=False, indent=2\<close>), and the two ways an
  f-string prints a float (\<^verbatim>\<open>{x}\<close> and \<^verbatim>\<open>{x:.4f}\<close>). They are parameters of the
  model. Money is a Python float in the source; it is modelled as a real number, so the
  rounding of floating-point arithmetic is not part of the model.
\<close>

record runtime =
  json_decode :: "pystr \<Rightarrow> py_exn + pyval"
  json_dumps :: "pyval \<Rightarrow> py_exn + pystr"
  format_float :: "real \<Rightarrow> pystr"
  format_4f :: "real \<Rightarrow> pystr"

text \<open>\<^verbatim>\<open>json.loads(x)\<close>: anything but a string (bytes are not modelled) is rejected with a
  \<^verbatim>\<open>TypeError\<close> before any decoding.\<close>

definition json_loads :: "runtime \<Rightarrow> pyval \<Rightarrow> py_exn + pyval" where
  "json_loads rt x =
     (case x of
        PStr s \<Rightarrow> json_decode rt s
      | _ \<Rightarrow> Inl (PyExn TypeError
                (u ''the JSON object must be str, bytes or bytearray, not '' @ type_name x)))"

section \<open>DataReader\<close>

text \<open>One row of the parquet table: the sixteen columns of the schema. A column value may
  be null (\<open>None\<close>).\<close>

record row =
  name :: "pystr option"
  city :: "pystr option"
  ward :: "pystr option"
  description :: "pystr option"
  address :: "pystr option"
  latitude :: "real option"
  longitude :: "real option"
  ticket_price :: "pystr option"
  opening_hours :: "pystr option"
  recommended_duration :: "pystr option"
  categories :: "pystr option"
  transportation :: "pystr option"
  nearby_attractions :: "pystr option"
  website :: "pystr option"
  phone :: "pystr option"
  last_updated :: "pystr option"

definition utf8_val :: "pystr option \<Rightarrow> pyval" where
  "utf8_val x = (case x of None \<Rightarrow> PNone | Some s \<Rightarrow> PStr s)"

definition float_val :: "real option \<Rightarrow> pyval" where
  "float_val x = (case x of None \<Rightarrow> PNone | Some r \<Rightarrow> PFloat r)"

text \<open>\<^verbatim>\<open>dict(row)\<close> for a row of \<^verbatim>\<open>df.iter_rows(named=True)\<close>.\<close>

definition dict_of_row :: "row \<Rightarrow> (pystr \<times> pyval) list" where
  "dict_of_row r =
     [(u ''name'', utf8_val (name r)),
      (u ''city'', utf8_val (city r)),
      (u ''ward'', utf8_val (ward r)),
      (u ''description'', utf8_val (description r)),
      (u ''address'', utf8_val (address r)),
      (u ''latitude'', float_val (latitude r)),
      (u ''longitude'', float_val (longitude r)),
      (u ''ticket_price'', utf8_val (ticket_price r)),
      (u ''opening_hours'', utf8_val (opening_hours r)),
      (u ''recommended_duration'', utf8_val (recommended_duration r)),
      (u ''categories'', utf8_val (categories r)),
      (u ''transportation'', utf8_val (transportation r)),
      (u ''nearby_attractions'', utf8_val (nearby_attractions r)),
      (u ''website'', utf8_val (website r)),
      (u ''phone'', utf8_val (phone r)),
      (u ''last_updated'', utf8_val (last_updated r))]"

text \<open>The two comma-separated columns: a non-empty text is split at the commas, an empty
  or null one gives the empty list.\<close>

definition split_field :: "pystr option \<Rightarrow> pyval" where
  "split_field x =
     (case x of
        Some s \<Rightarrow> if s \<noteq> [] then PList (map PStr (split_on 0x2C s)) else PList []
      | None \<Rightarrow> PList [])"

text \<open>The transportation column: a non-empty text is decoded; \<^verbatim>\<open>JSONDecodeError\<close> gives
  the empty dict, any other exception of the decoder is not caught.\<close>

definition load_transportation :: "runtime \<Rightarrow> pystr option \<Rightarrow> py_exn + pyval" where
  "load_transportation rt x =
     (case x of
        Some s \<Rightarrow>
          if s \<noteq> [] then
            (case json_loads rt (PStr s) of
               Inr v \<Rightarrow> Inr v
             | Inl e \<Rightarrow> if exn_class_of e = JSONDecodeError then Inr (PDict []) else Inl e)
          else Inr (PDict [])
      | None \<Rightarrow> Inr (PDict []))"

text \<open>The body of the loop of \<^verbatim>\<open>_df_to_dict_list\<close> for one row.\<close>

definition process_row :: "runtime \<Rightarrow> row \<Rightarrow> py_exn + pyval" where
  "process_row rt r =
     (let processed_row = dict_of_row r;
          processed_row = dict_set (u ''categories'') (split_field (categories r)) processed_row;
          processed_row =
            dict_set (u ''nearby_attractions'') (split_field (nearby_attractions r)) processed_row
      in case load_transportation rt (transportation r) of
           Inl e \<Rightarrow> Inl e
         | Inr t \<Rightarrow> Inr (PDict (dict_set (u ''transportation'') t processed_row)))"

fun df_to_dict_list :: "runtime \<Rightarrow> row list \<Rightarrow> py_exn + pyval list" where
  "df_to_dict_list rt [] = Inr []"
| "df_to_dict_list rt (r # rs) =
     (case process_row rt r of
        Inl e \<Rightarrow> Inl e
      | Inr d \<Rightarrow> (case df_to_dict_list rt rs of Inl e \<Rightarrow> Inl e | Inr ds \<Rightarrow> Inr (d # ds)))"

text \<open>
  The table that \<^verbatim>\<open>_load_data\<close> returns is the parameter \<open>df\<close> of the queries (the empty
  table when the file cannot be read). In polars, \<^verbatim>\<open>pl.col("name") == name\<close> is null on
  a null name, and \<^verbatim>\<open>filter\<close> drops the rows whose predicate is null.
\<close>

definition get_all_attractions :: "runtime \<Rightarrow> row list \<Rightarrow> py_exn + pyval" where
  "get_all_attractions rt df = map_sum id PList (df_to_dict_list rt df)"

definition get_attraction_by_name :: "runtime \<Rightarrow> row list \<Rightarrow> pystr \<Rightarrow> py_exn + pyval" where
  "get_attraction_by_name rt df nm =
     (let filtered_df = filter (\<lambda>r. name r = Some nm) df
      in if length filtered_df = 0 then Inr PNone
         else (case df_to_dict_list rt filtered_df of
                 Inl e \<Rightarrow> Inl e
               | Inr result \<Rightarrow> Inr (case result of d # ds \<Rightarrow> d | [] \<Rightarrow> PNone)))"

text \<open>\<^verbatim>\<open>key in d\<close> and \<^verbatim>\<open>d[key]\<close> on the value that \<^verbatim>\<open>get_attraction_by_name\<close>
  returned: a dict or \<^verbatim>\<open>None\<close>.\<close>

fun has_key :: "pyval \<Rightarrow> pystr \<Rightarrow> bool" where
  "has_key (PDict kvs) k = (k \<in> fst ` set kvs)"
| "has_key v k = False"

fun subscript :: "pyval \<Rightarrow> pystr \<Rightarrow> pyval" where
  "subscript (PDict kvs) k = (case map_of kvs k of Some v \<Rightarrow> v | None \<Rightarrow> PNone)"
| "subscript v k = PNone"

definition get_transportation_info :: "runtime \<Rightarrow> row list \<Rightarrow> pystr \<Rightarrow> py_exn + pyval" where
  "get_transportation_info rt df nm =
     (case get_attraction_by_name rt df nm of
        Inl e \<Rightarrow> Inl e
      | Inr attraction \<Rightarrow>
          if truthy attraction \<and> has_key attraction (u ''transportation'') then
            (case json_loads rt (subscript attraction (u ''transportation'')) of
               Inr v \<Rightarrow> Inr v
             | Inl e \<Rightarrow> if exn_class_of e = JSONDecodeError then Inr (PDict []) else Inl e)
          else Inr (PDict []))"

text \<open>\<^verbatim>\<open>d.get(key, "")\<close>.\<close>

definition dict_get_or_empty :: "pyval \<Rightarrow> pystr \<Rightarrow> pyval" where
  "dict_get_or_empty d k = (if has_key d k then subscript d k else PStr [])"

definition get_basic_info :: "runtime \<Rightarrow> row list \<Rightarrow> pystr \<Rightarrow> py_exn + pyval" where
  "get_basic_info rt df nm =
     (case get_attraction_by_name rt df nm of
        Inl e \<Rightarrow> Inl e
      | Inr attraction \<Rightarrow>
          if truthy attraction then
            Inr (PDict
              [(u ''name'', dict_get_or_empty attraction (u ''name'')),
               (u ''description'', dict_get_or_empty attraction (u ''description'')),
               (u ''address'', dict_get_or_empty attraction (u ''address'')),
               (u ''ticket_price'', dict_get_or_empty attraction (u ''ticket_price'')),
               (u ''opening_hours'', dict_get_or_empty attraction (u ''opening_hours'')),
               (u ''recommended_duration'',
                  dict_get_or_empty attraction (u ''recommended_duration''))])
          else Inr (PDict []))"

section \<open>ReActAgent\<close>

subsection \<open>State\<close>

record message =
  role :: pystr
  content :: pystr

text \<open>What the agent reads from the object that \<^verbatim>\<open>chat.completions.create\<close> returns:
  \<^verbatim>\<open>choices[0].message.content\<close> and the two counts of \<^verbatim>\<open>usage\<close>.\<close>

record response =
  choice_content :: pystr
  prompt_tokens :: int
  completion_tokens :: int

text \<open>The three ways \<^verbatim>\<open>execute_action\<close> calls a tool: \<^verbatim>\<open>f()\<close>, \<^verbatim>\<open>f(x)\<close> and
  \<^verbatim>\<open>f(**params)\<close>.\<close>

datatype call_args = NoArgs | OneArg pyval | Keywords "(pystr \<times> pyval) list"

type_synonym tool = "call_args \<Rightarrow> py_exn + pyval"

record pricing =
  input_price :: real
  output_price :: real

text \<open>
  The attributes of a \<^verbatim>\<open>ReActAgent\<close>. \<open>client\<close> is the remote model: it takes the model
  name, the message list and the temperature, and returns a response or raises. Within one
  run every request has a longer message list than the one before, so a function of the
  message list covers every sequence of replies a sampling model can give in a run.
\<close>

record agent =
  client :: "pystr \<Rightarrow> message list \<Rightarrow> real \<Rightarrow> py_exn + response"
  model :: pystr
  budget_limit :: real
  total_cost :: real
  total_prompt_tokens :: int
  total_completion_tokens :: int
  max_iterations :: nat
  tools :: "pystr \<rightharpoonup> tool"

definition MODEL_PRICING :: "pystr \<rightharpoonup> pricing" where
  "MODEL_PRICING =
     [u ''qwen-flash'' \<mapsto> \<lparr>input_price = 0.0003, output_price = 0.0006\<rparr>,
      u ''qwen-plus'' \<mapsto> \<lparr>input_price = 0.008, output_price = 0.008\<rparr>,
      u ''qwen-max'' \<mapsto> \<lparr>input_price = 0.04, output_price = 0.12\<rparr>]"

subsection \<open>The tool registry\<close>

text \<open>
  A method of \<^verbatim>\<open>DataReader\<close> that takes one string. The dispatcher calls it with one
  string and in no other way; any other call is reported as a \<^verbatim>\<open>TypeError\<close>.
\<close>

definition string_method :: "(pystr \<Rightarrow> py_exn + pyval) \<Rightarrow> tool" where
  "string_method f args =
     (case args of
        OneArg (PStr s) \<Rightarrow> f s
      | _ \<Rightarrow> Inl (PyExn TypeError (u ''unsupported call'')))"

definition no_arg_method :: "(py_exn + pyval) \<Rightarrow> tool" where
  "no_arg_method r args =
     (case args of
        NoArgs \<Rightarrow> r
      | _ \<Rightarrow> Inl (PyExn TypeError (u ''unsupported call'')))"

text \<open>
  \<^verbatim>\<open>search_attractions(keyword="", category="", ward="")\<close> filters the table with polars
  expressions; the filter is the parameter \<open>search\<close> of the registry, and the two methods
  that delegate to it pass one keyword each.
\<close>

definition get_attractions_by_category :: "tool \<Rightarrow> pystr \<Rightarrow> py_exn + pyval" where
  "get_attractions_by_category search category = search (Keywords [(u ''category'', PStr category)])"

definition get_attractions_by_ward :: "tool \<Rightarrow> pystr \<Rightarrow> py_exn + pyval" where
  "get_attractions_by_ward search w = search (Keywords [(u ''ward'', PStr w)])"

definition agent_tools :: "runtime \<Rightarrow> row list \<Rightarrow> tool \<Rightarrow> (pystr \<rightharpoonup> tool)" where
  "agent_tools rt df search =
     [u ''get_all_attractions'' \<mapsto> no_arg_method (get_all_attractions rt df),
      u ''get_attraction_by_name'' \<mapsto> string_method (get_attraction_by_name rt df),
      u ''search_attractions'' \<mapsto> search,
      u ''get_attractions_by_category'' \<mapsto> string_method (get_attractions_by_category search),
      u ''get_attractions_by_ward'' \<mapsto> string_method (get_attractions_by_ward search),
      u ''get_transportation_info'' \<mapsto> string_method (get_transportation_info rt df),
      u ''get_basic_info'' \<mapsto> string_method (get_basic_info rt df)]"

text \<open>\<^verbatim>\<open>__init__\<close>, without the reading of the configuration file: the client is given.\<close>

definition init :: "runtime \<Rightarrow> (pystr \<Rightarrow> message list \<Rightarrow> real \<Rightarrow> py_exn + response) \<Rightarrow>
    row list \<Rightarrow> tool \<Rightarrow> pystr \<Rightarrow> real \<Rightarrow> agent" where
  "init rt cl df search m limit =
     \<lparr>client = cl, model = m, budget_limit = limit, total_cost = 0,
      total_prompt_tokens = 0, total_completion_tokens = 0, max_iterations = 10,
      tools = agent_tools rt df search\<rparr>"

subsection \<open>calculate\_cost\<close>

definition calculate_cost :: "agent \<Rightarrow> int \<Rightarrow> int \<Rightarrow> real" where
  "calculate_cost a p c =
     (let pr = (case MODEL_PRICING (model a) of
                  None \<Rightarrow> the (MODEL_PRICING (u ''qwen-flash''))
                | Some x \<Rightarrow> x);
          input_cost = (real_of_int p / 1000) * input_price pr;
          output_cost = (real_of_int c / 1000) * output_price pr;
          total = input_cost + output_cost
      in total)"

subsection \<open>execute\_action\<close>

definition single_string_actions :: "pystr list" where
  "single_string_actions =
     [u ''get_attraction_by_name'', u ''get_attractions_by_category'',
      u ''get_attractions_by_ward'', u ''get_transportation_info'', u ''get_basic_info'']"

text \<open>\<^verbatim>\<open>f(**params)\<close>: the interpreter raises \<^verbatim>\<open>TypeError\<close> when \<open>params\<close> is not a
  mapping, before \<open>f\<close> is entered. (CPython puts the name of the callee in front of this
  text.)\<close>

definition call_with_kwargs :: "tool \<Rightarrow> pyval \<Rightarrow> py_exn + pyval" where
  "call_with_kwargs f params =
     (case params of
        PDict kvs \<Rightarrow> f (Keywords kvs)
      | _ \<Rightarrow> Inl (PyExn TypeError
                (u ''argument after ** must be a mapping, not '' @ type_name params)))"

text \<open>The inner \<^verbatim>\<open>try\<close> of the \<^verbatim>\<open>search_attractions\<close> branch: decoding and the call are
  both inside it, and only \<^verbatim>\<open>JSONDecodeError\<close> leads to the keyword call.\<close>

definition call_search :: "runtime \<Rightarrow> tool \<Rightarrow> pystr \<Rightarrow> py_exn + pyval" where
  "call_search rt f action_input =
     (case (case json_loads rt (PStr action_input) of
              Inl e \<Rightarrow> Inl e
            | Inr params \<Rightarrow> call_with_kwargs f params) of
        Inr result \<Rightarrow> Inr result
      | Inl e \<Rightarrow>
          if exn_class_of e = JSONDecodeError
          then f (Keywords [(u ''keyword'', PStr (strip_chars (u ''\"'') action_input))])
          else Inl e)"

text \<open>The \<^verbatim>\<open>if\<close>/\<^verbatim>\<open>elif\<close>/\<^verbatim>\<open>else\<close> that computes \<^verbatim>\<open>result\<close>.\<close>

definition invoke :: "runtime \<Rightarrow> tool \<Rightarrow> pystr \<Rightarrow> pystr \<Rightarrow> py_exn + pyval" where
  "invoke rt f action action_input =
     (if action \<in> set single_string_actions
      then f (OneArg (PStr (strip_chars (u ''\"'') action_input)))
      else if action = u ''search_attractions''
      then call_search rt f action_input
      else f NoArgs)"

text \<open>The body of the outer \<^verbatim>\<open>try\<close>: the call, then the serialisation of its result.\<close>

definition run_tool :: "runtime \<Rightarrow> tool \<Rightarrow> pystr \<Rightarrow> pystr \<Rightarrow> py_exn + pystr" where
  "run_tool rt f action action_input =
     (case invoke rt f action action_input of
        Inl e \<Rightarrow> Inl e
      | Inr result \<Rightarrow> json_dumps rt result)"

definition execution_error_text :: pystr where
  "execution_error_text =
     [0x6267, 0x884C, 0x52A8, 0x4F5C, 0x65F6, 0x51FA, 0x9519, 0x3A, 0x20]"

definition unknown_action_text :: pystr where
  "unknown_action_text = [0x672A, 0x77E5, 0x7684, 0x52A8, 0x4F5C, 0x3A, 0x20]"

definition execute_action :: "runtime \<Rightarrow> agent \<Rightarrow> pystr \<Rightarrow> pystr \<Rightarrow> py_exn + pystr" where
  "execute_action rt a action action_input =
     (case tools a action of
        Some f \<Rightarrow>
          (case run_tool rt f action action_input of
             Inr text \<Rightarrow> Inr text
           | Inl e \<Rightarrow> Inr (execution_error_text @ exn_str e))
      | None \<Rightarrow> Inr (unknown_action_text @ action))"

subsection \<open>plan\_travel\<close>

text \<open>The system message: the code points of the literal in the source.\<close>

definition system_prompt :: pystr where
  "system_prompt =
   [
    0x4F60, 0x662F, 0x4E00, 0x4E2A, 0x4E13, 0x4E1A, 0x7684, 0x4E1C, 0x4EAC, 0x65C5, 0x6E38,
    0x89C4, 0x5212, 0x52A9, 0x624B, 0x3002, 0x4F7F, 0x7528, 0x52, 0x65, 0x41, 0x63, 0x74,
    0x6A21, 0x5F0F, 0x6765, 0x601D, 0x8003, 0x548C, 0x884C, 0x52A8, 0x3002, 0xA, 0x52, 0x65,
    0x41, 0x63, 0x74, 0x6A21, 0x5F0F, 0x5305, 0x542B, 0x4EE5, 0x4E0B, 0x6B65, 0x9AA4, 0xFF1A,
    0xA, 0x31, 0x2E, 0x20, 0x54, 0x68, 0x6F, 0x75, 0x67, 0x68, 0x74, 0x3A, 0x20, 0x5206,
    0x6790, 0x5F53, 0x524D, 0x60C5, 0x51B5, 0x5E76, 0x51B3, 0x5B9A, 0x4E0B, 0x4E00, 0x6B65,
    0x884C, 0x52A8, 0xA, 0x32, 0x2E, 0x20, 0x41, 0x63, 0x74, 0x69, 0x6F, 0x6E, 0x3A, 0x20,
    0x4ECE, 0x4EE5, 0x4E0B, 0x53EF, 0x7528, 0x5DE5, 0x5177, 0x4E2D, 0x9009, 0x62E9, 0x4E00,
    0x4E2A, 0x6267, 0x884C, 0xA, 0x20, 0x20, 0x20, 0x2D, 0x20, 0x67, 0x65, 0x74, 0x5F, 0x61,
    0x6C, 0x6C, 0x5F, 0x61, 0x74, 0x74, 0x72, 0x61, 0x63, 0x74, 0x69, 0x6F, 0x6E, 0x73, 0x3A,
    0x20, 0x83B7, 0x53D6, 0x6240, 0x6709, 0x666F, 0x70B9, 0x4FE1, 0x606F, 0xA, 0x20, 0x20,
    0x20, 0x2D, 0x20, 0x67, 0x65, 0x74, 0x5F, 0x61, 0x74, 0x74, 0x72, 0x61, 0x63, 0x74, 0x69,
    0x6F, 0x6E, 0x5F, 0x62, 0x79, 0x5F, 0x6E, 0x61, 0x6D, 0x65, 0x3A, 0x20, 0x83B7, 0x53D6,
    0x7279, 0x5B9A, 0x666F, 0x70B9, 0x8BE6, 0x7EC6, 0x4FE1, 0x606F, 0xFF0C, 0x9700, 0x8981,
    0x63D0, 0x4F9B, 0x666F, 0x70B9, 0x540D, 0x79F0, 0xA, 0x20, 0x20, 0x20, 0x2D, 0x20, 0x73,
    0x65, 0x61, 0x72, 0x63, 0x68, 0x5F, 0x61, 0x74, 0x74, 0x72, 0x61, 0x63, 0x74, 0x69, 0x6F,
    0x6E, 0x73, 0x3A, 0x20, 0x641C, 0x7D22, 0x666F, 0x70B9, 0xFF0C, 0x53EF, 0x4EE5, 0x63D0,
    0x4F9B, 0x5173, 0x952E, 0x8BCD, 0x3001, 0x5206, 0x7C7B, 0x3001, 0x533A, 0x57DF, 0x7B49,
    0x53C2, 0x6570, 0xA, 0x20, 0x20, 0x20, 0x2D, 0x20, 0x67, 0x65, 0x74, 0x5F, 0x61, 0x74,
    0x74, 0x72, 0x61, 0x63, 0x74, 0x69, 0x6F, 0x6E, 0x73, 0x5F, 0x62, 0x79, 0x5F, 0x63, 0x61,
    0x74, 0x65, 0x67, 0x6F, 0x72, 0x79, 0x3A, 0x20, 0x6839, 0x636E, 0x5206, 0x7C7B, 0x83B7,
    0x53D6, 0x666F, 0x70B9, 0xFF0C, 0x9700, 0x8981, 0x63D0, 0x4F9B, 0x5206, 0x7C7B, 0x540D,
    0x79F0, 0xA, 0x20, 0x20, 0x20, 0x2D, 0x20, 0x67, 0x65, 0x74, 0x5F, 0x61, 0x74, 0x74, 0x72,
    0x61, 0x63, 0x74, 0x69, 0x6F, 0x6E, 0x73, 0x5F, 0x62, 0x79, 0x5F, 0x77, 0x61, 0x72, 0x64,
    0x3A, 0x20, 0x6839, 0x636E, 0x533A, 0x57DF, 0x83B7, 0x53D6, 0x666F, 0x70B9, 0xFF0C, 0x9700,
    0x8981, 0x63D0, 0x4F9B, 0x533A, 0x57DF, 0x540D, 0x79F0, 0xA, 0x20, 0x20, 0x20, 0x2D, 0x20,
    0x67, 0x65, 0x74, 0x5F, 0x74, 0x72, 0x61, 0x6E, 0x73, 0x70, 0x6F, 0x72, 0x74, 0x61, 0x74,
    0x69, 0x6F, 0x6E, 0x5F, 0x69, 0x6E, 0x66, 0x6F, 0x3A, 0x20, 0x83B7, 0x53D6, 0x666F, 0x70B9,
    0x7684, 0x4EA4, 0x901A, 0x4FE1, 0x606F, 0xFF0C, 0x9700, 0x8981, 0x63D0, 0x4F9B, 0x666F,
    0x70B9, 0x540D, 0x79F0, 0xA, 0x20, 0x20, 0x20, 0x2D, 0x20, 0x67, 0x65, 0x74, 0x5F, 0x62,
    0x61, 0x73, 0x69, 0x63, 0x5F, 0x69, 0x6E, 0x66, 0x6F, 0x3A, 0x20, 0x83B7, 0x53D6, 0x666F,
    0x70B9, 0x7684, 0x57FA, 0x672C, 0x4FE1, 0x606F, 0xFF0C, 0x9700, 0x8981, 0x63D0, 0x4F9B,
    0x666F, 0x70B9, 0x540D, 0x79F0, 0xA, 0x33, 0x2E, 0x20, 0x4F, 0x62, 0x73, 0x65, 0x72, 0x76,
    0x61, 0x74, 0x69, 0x6F, 0x6E, 0x3A, 0x20, 0x89C2, 0x5BDF, 0x5DE5, 0x5177, 0x6267, 0x884C,
    0x7ED3, 0x679C, 0xA, 0x34, 0x2E, 0x20, 0x91CD, 0x590D, 0x4EE5, 0x4E0A, 0x6B65, 0x9AA4,
    0x76F4, 0x5230, 0x53EF, 0x4EE5, 0x56DE, 0x7B54, 0x7528, 0x6237, 0x95EE, 0x9898, 0xA, 0xA,
    0x8BF7, 0x4E25, 0x683C, 0x6309, 0x7167, 0x4EE5, 0x4E0B, 0x683C, 0x5F0F, 0x8F93, 0x51FA,
    0xFF1A, 0xA, 0x54, 0x68, 0x6F, 0x75, 0x67, 0x68, 0x74, 0x3A, 0x20, 0x4F60, 0x7684, 0x601D,
    0x8003, 0x8FC7, 0x7A0B, 0xA, 0x41, 0x63, 0x74, 0x69, 0x6F, 0x6E, 0x3A, 0x20, 0x5DE5,
    0x5177, 0x540D, 0x79F0, 0xA, 0x41, 0x63, 0x74, 0x69, 0x6F, 0x6E, 0x20, 0x49, 0x6E, 0x70,
    0x75, 0x74, 0x3A, 0x20, 0x5DE5, 0x5177, 0x53C2, 0x6570, 0xA, 0xA, 0x6700, 0x7EC8, 0x56DE,
    0x7B54, 0x7528, 0x6237, 0x95EE, 0x9898, 0x65F6, 0xFF0C, 0x8BF7, 0x63D0, 0x4F9B, 0x8BE6,
    0x7EC6, 0x7684, 0x65C5, 0x6E38, 0x89C4, 0x5212, 0x5EFA, 0x8BAE, 0x3002, 0xA
   ]"

text \<open>The f-strings of the three final messages. \<open>budget_message\<close> prints the limit with
  \<^verbatim>\<open>{...}\<close> and the accumulated cost with \<^verbatim>\<open>{...:.4f}\<close>.\<close>

definition budget_message :: "runtime \<Rightarrow> agent \<Rightarrow> pystr" where
  "budget_message rt a =
     [0x5DF2, 0x8FBE, 0x5230, 0x9884, 0x7B97, 0x9650, 0x5236, 0xFF08]
     @ format_float rt (budget_limit a) @
     [0x5143, 0xFF09, 0xFF0C, 0x65E0, 0x6CD5, 0x7EE7, 0x7EED, 0x6267, 0x884C, 0x3002, 0x5F53,
      0x524D, 0x8D39, 0x7528, 0xFF1A]
     @ format_4f rt (total_cost a) @ [0x5143]"

definition iteration_message :: "runtime \<Rightarrow> agent \<Rightarrow> pystr" where
  "iteration_message rt a =
     [0x62B1, 0x6B49, 0xFF0C, 0x6211, 0x65E0, 0x6CD5, 0x5728, 0x9650, 0x5B9A, 0x7684, 0x6B65,
      0x9AA4, 0x5185, 0x5B8C, 0x6210, 0x60A8, 0x7684, 0x8BF7, 0x6C42, 0x3002, 0x5F53, 0x524D,
      0x8D39, 0x7528, 0xFF1A]
     @ format_4f rt (total_cost a) @ [0x5143]"

definition cost_info :: "runtime \<Rightarrow> agent \<Rightarrow> int \<Rightarrow> int \<Rightarrow> real \<Rightarrow> pystr" where
  "cost_info rt a p c cost =
     [0xA, 0xA, 0x8D39, 0x7528, 0x4FE1, 0x606F, 0xFF1A, 0x672C, 0x6B21, 0x5BF9, 0x8BDD, 0x6D88,
      0x8017, 0x20]
     @ str_int (p + c) @
     [0x20, 0x74, 0x6F, 0x6B, 0x65, 0x6E, 0x73, 0xFF0C, 0x8D39, 0x7528, 0x7EA6, 0x4E3A, 0x20]
     @ format_4f rt cost @
     [0x20, 0x5143, 0x3002, 0x603B, 0x8BA1, 0x6D88, 0x8017, 0x20]
     @ str_int (total_prompt_tokens a + total_completion_tokens a) @
     [0x20, 0x74, 0x6F, 0x6B, 0x65, 0x6E, 0x73, 0xFF0C, 0x603B, 0x8D39, 0x7528, 0x20]
     @ format_4f rt (total_cost a) @
     [0x20, 0x5143, 0x3002]"

text \<open>
  What a run leaves behind besides its return value: the agent with its updated totals, and
  the list of the requests sent to the model, each with what came back and the agent as it
  was after the accounting of that reply (unchanged when the request raised).
\<close>

record model_call =
  request :: "message list"
  reply :: "py_exn + response"
  account :: agent

type_synonym run = "(py_exn + pystr) \<times> agent \<times> model_call list"

text \<open>Lines 178 to 188: the totals after a reply.\<close>

definition account_for :: "agent \<Rightarrow> response \<Rightarrow> agent" where
  "account_for a r =
     a\<lparr>total_cost := total_cost a + calculate_cost a (prompt_tokens r) (completion_tokens r),
       total_prompt_tokens := total_prompt_tokens a + prompt_tokens r,
       total_completion_tokens := total_completion_tokens a + completion_tokens r\<rparr>"

text \<open>
  The \<^verbatim>\<open>for\<close> loop with \<open>n\<close> iterations left. An exception of the client, or one that
  \<open>execute_action\<close> let through, ends the run with that exception.
\<close>

fun react_loop :: "runtime \<Rightarrow> nat \<Rightarrow> agent \<Rightarrow> message list \<Rightarrow> run" where
  "react_loop rt 0 a history = (Inr (iteration_message rt a), a, [])"
| "react_loop rt (Suc n) a history =
     (if total_cost a \<ge> budget_limit a then (Inr (budget_message rt a), a, [])
      else
        (case client a (model a) history 0.7 of
           Inl e \<Rightarrow> (Inl e, a, [\<lparr>request = history, reply = Inl e, account = a\<rparr>])
         | Inr r \<Rightarrow>
             (let cost = calculate_cost a (prompt_tokens r) (completion_tokens r);
                  a' = account_for a r;
                  this_call = \<lparr>request = history, reply = Inr r, account = a'\<rparr>;
                  answer = choice_content r;
                  history' = history @ [\<lparr>role = u ''assistant'', content = answer\<rparr>];
                  action = fst (extract_action answer);
                  action_input = snd (extract_action answer)
              in if action = [] then
                   (Inr (answer @ cost_info rt a' (prompt_tokens r) (completion_tokens r) cost),
                    a', [this_call])
                 else
                   (case execute_action rt a' action action_input of
                      Inl e \<Rightarrow> (Inl e, a', [this_call])
                    | Inr observation \<Rightarrow>
                        (case react_loop rt n a'
                                (history' @
                                 [\<lparr>role = u ''user'',
                                   content = u ''Observation: '' @ observation\<rparr>]) of
                           (res, a'', calls) \<Rightarrow> (res, a'', this_call # calls))))))"

definition plan_travel :: "runtime \<Rightarrow> agent \<Rightarrow> pystr \<Rightarrow> run" where
  "plan_travel rt a query =
     (if total_cost a \<ge> budget_limit a then (Inr (budget_message rt a), a, [])
      else react_loop rt (max_iterations a) a
             [\<lparr>role = u ''system'', content = system_prompt\<rparr>,
              \<lparr>role = u ''user'', content = query\<rparr>])"

section \<open>The wording of the specification\<close>

text \<open>
  Two operations as the specification words them, to be compared with the code.
  \<open>spec_field\<close>: the content that follows the marker up to the end of the line, stripped;
  empty when the marker is absent. \<open>strip_one_layer\<close>: one layer of surrounding double
  quotes removed.
\<close>

definition spec_field :: "pystr \<Rightarrow> pystr \<Rightarrow> pystr" where
  "spec_field marker text =
     (case find_after marker text of
        None \<Rightarrow> []
      | Some rest \<Rightarrow> strip (takeWhile (\<lambda>c. c \<noteq> 0x0A) rest))"

definition strip_one_layer :: "pystr \<Rightarrow> pystr" where
  "strip_one_layer s =
     (if 2 \<le> length s \<and> hd s = 0x22 \<and> last s = 0x22 then butlast (tl s) else s)"

section \<open>Reading the outcome of a tool call\<close>

text \<open>What \<open>execute_action\<close> makes of the outcome of the call it dispatched: the
  serialised result, or the error text followed by \<^verbatim>\<open>str(e)\<close> when the call or the
  serialisation raised.\<close>

definition observation_of :: "runtime \<Rightarrow> py_exn + pyval \<Rightarrow> pystr" where
  "observation_of rt outcome =
     (case outcome of
        Inl e \<Rightarrow> execution_error_text @ exn_str e
      | Inr v \<Rightarrow>
          (case json_dumps rt v of
             Inl e \<Rightarrow> execution_error_text @ exn_str e
           | Inr s \<Rightarrow> s))"

section \<open>Reading the record of a run\<close>







section \<open>Sample inputs\<close>

text \<open>
  Concrete inputs on which the results below are evaluated. \<open>sample_runtime\<close> gives the
  library functions at the few arguments that occur in the examples, with CPython's
  results for the JSON texts \<^verbatim>\<open>"a"\<close>, \<^verbatim>\<open>{}\<close> and \<^verbatim>\<open>a\<close>; at other arguments it is
  arbitrary.
\<close>

definition sample_decode :: "pystr \<Rightarrow> py_exn + pyval" where
  "sample_decode s =
     (if s = u ''\"a\"'' then Inr (PStr (u ''a''))
      else if s = u ''{}'' then Inr (PDict [])
      else Inl (PyExn JSONDecodeError (u ''Expecting value: line 1 column 1 (char 0)'')))"

definition sample_dumps :: "pyval \<Rightarrow> py_exn + pystr" where
  "sample_dumps v =
     (if v = PDict [] then Inr (u ''{}'')
      else if v = PList [] then Inr (u ''[]'')
      else if v = PNone then Inr (u ''null'')
      else Inl (PyExn TypeError (u ''not serializable'')))"

definition sample_runtime :: runtime where
  "sample_runtime =
     \<lparr>json_decode = sample_decode, json_dumps = sample_dumps,
      format_float = (\<lambda>x. if x = 0.1 then u ''0.1'' else u ''1.0''),
      format_4f = (\<lambda>x. if x = 0 then u ''0.0000'' else u ''0.2000'')\<rparr>"

text \<open>Two replies of a model: one that asks for a tool, in the format of the system
  message, and one that is a final answer.\<close>

definition tool_request_text :: pystr where
  "tool_request_text =
     u ''Thought: look it up'' @ [0x0A] @ u ''Action: get_basic_info '' @ [0x0A] @
     u ''Action Input: \"a\"''"

definition final_answer_text :: pystr where
  "final_answer_text = u ''Visit Asakusa.''"

text \<open>A search that finds nothing, and two remote models: one that answers at once and
  one that asks for a tool on every turn. Each reports its token counts.\<close>

definition empty_search :: tool where
  "empty_search args = Inr (PList [])"

definition sample_answer :: response where
  "sample_answer =
     \<lparr>choice_content = final_answer_text, prompt_tokens = 2000, completion_tokens = 1000\<rparr>"


definition answering_client :: "pystr \<Rightarrow> message list \<Rightarrow> real \<Rightarrow> py_exn + response" where
  "answering_client m history t = Inr sample_answer"


definition sample_agent ::
    "(pystr \<Rightarrow> message list \<Rightarrow> real \<Rightarrow> py_exn + response) \<Rightarrow> pystr \<Rightarrow> agent" where
  "sample_agent cl m = init sample_runtime cl [] empty_search m 0.1"


text \<open>A tool that raises with its argument as the text of the exception when it is called
  with one string, and an agent whose registry holds it under two of the action names.\<close>

definition reporting_tool :: tool where
  "reporting_tool args =
     (case args of
        OneArg (PStr s) \<Rightarrow> Inl (PyExn (OtherException (u ''ValueError'')) s)
      | _ \<Rightarrow> Inr (PInt 0))"

definition reporting_agent :: agent where
  "reporting_agent =
     (sample_agent answering_client (u ''qwen-flash''))
       \<lparr>tools := [u ''get_basic_info'' \<mapsto> reporting_tool,
                 u ''get_all_attractions'' \<mapsto> reporting_tool]\<rparr>"


section \<open>Properties\<close>

subsection \<open>The cost of one call\<close>




lemma model_sample [simp]: "model (sample_agent cl m) = m"
  by (simp add: sample_agent_def init_def)


subsection \<open>Strings\<close>

lemma find_after_None_iff:
  "find_after m s = None \<longleftrightarrow> \<not> (\<exists>pre post. s = pre @ m @ post)"
proof (induction s)
  case Nil
  then show ?case by auto
next
  case (Cons c cs)
  show ?case
  proof (cases "starts_with (c # cs) m")
    case True
    then have "c # cs = [] @ m @ drop (length m) (c # cs)"
      by (metis append_Nil append_take_drop_id starts_with_def)
    then have "\<exists>pre post. c # cs = pre @ m @ post" by blast
    with True show ?thesis by simp
  next
    case False
    have "(\<exists>pre post. c # cs = pre @ m @ post) \<longleftrightarrow> (\<exists>pre post. cs = pre @ m @ post)"
    proof
      assume "\<exists>pre post. c # cs = pre @ m @ post"
      then obtain pre post where e: "c # cs = pre @ m @ post" by blast
      show "\<exists>pre post. cs = pre @ m @ post"
      proof (cases pre)
        case Nil
        with e have "take (length m) (c # cs) = m" by simp
        with False show ?thesis by (simp add: starts_with_def)
      next
        case (Cons x xs)
        with e show ?thesis by auto
      qed
    next
      assume "\<exists>pre post. cs = pre @ m @ post"
      then obtain pre post where "cs = pre @ m @ post" by blast
      then have "c # cs = (c # pre) @ m @ post" by simp
      then show "\<exists>pre post. c # cs = pre @ m @ post" by blast
    qed
    with False Cons show ?thesis by simp
  qed
qed

lemma find_after_Some:
  "find_after m s = Some rest \<Longrightarrow>
     \<exists>pre. s = pre @ m @ rest \<and>
       (\<forall>pre' post'. s = pre' @ m @ post' \<longrightarrow> length pre \<le> length pre')"
proof (induction s)
  case Nil
  then show ?case by (auto split: if_splits)
next
  case (Cons c cs)
  show ?case
  proof (cases "starts_with (c # cs) m")
    case True
    with Cons.prems have "rest = drop (length m) (c # cs)" by simp
    with True have "c # cs = [] @ m @ rest"
      by (metis append_Nil append_take_drop_id starts_with_def)
    then show ?thesis by (metis length_0_conv le0 list.size(3))
  next
    case False
    with Cons.prems have "find_after m cs = Some rest" by simp
    from Cons.IH [OF this] obtain pre where
      p: "cs = pre @ m @ rest"
      and mn: "\<forall>pre' post'. cs = pre' @ m @ post' \<longrightarrow> length pre \<le> length pre'"
      by blast
    have "\<forall>pre' post'. c # cs = pre' @ m @ post' \<longrightarrow> length (c # pre) \<le> length pre'"
    proof (intro allI impI)
      fix pre' post'
      assume e: "c # cs = pre' @ m @ post'"
      show "length (c # pre) \<le> length pre'"
      proof (cases pre')
        case Nil
        with e have "take (length m) (c # cs) = m" by simp
        with False show ?thesis by (simp add: starts_with_def)
      next
        case (Cons x xs)
        with e have "cs = xs @ m @ post'" by simp
        with mn have "length pre \<le> length xs" by blast
        with Cons show ?thesis by simp
      qed
    qed
    moreover from p have "c # cs = (c # pre) @ m @ rest" by simp
    ultimately show ?thesis by blast
  qed
qed

lemma isspace_LF: "isspace 0x0A"
  by (simp add: isspace_def)

lemma first_line_content:
  "\<exists>c \<in> set (takeWhile (\<lambda>c. c \<noteq> 0x0A) rest). \<not> isspace c \<Longrightarrow>
   takeWhile (\<lambda>c. c \<noteq> 0x0A) (dropWhile isspace rest) =
     dropWhile isspace (takeWhile (\<lambda>c. c \<noteq> 0x0A) rest)"
proof (induction rest)
  case Nil
  then show ?case by simp
next
  case (Cons c cs)
  show ?case
  proof (cases "isspace c")
    case True
    show ?thesis
    proof (cases "c = 0x0A")
      case True
      with Cons.prems show ?thesis by simp
    next
      case False
      with Cons.prems \<open>isspace c\<close>
      have "\<exists>c \<in> set (takeWhile (\<lambda>c. c \<noteq> 0x0A) cs). \<not> isspace c" by auto
      from Cons.IH [OF this] False \<open>isspace c\<close> show ?thesis by simp
    qed
  next
    case False
    then have "c \<noteq> 0x0A" using isspace_LF by auto
    with False show ?thesis by simp
  qed
qed

lemma strip_dropWhile: "strip (dropWhile isspace s) = strip s"
  by (simp add: strip_def)

lemma rev_split_while:
  "xs = rev (dropWhile P (rev xs)) @ rev (takeWhile P (rev xs))"
proof -
  have "rev (takeWhile P (rev xs) @ dropWhile P (rev xs)) = rev (rev xs)"
    by (simp only: takeWhile_dropWhile_id)
  then show ?thesis by (simp only: rev_append rev_rev_ident)
qed

lemma strip_chars_decompose:
  "\<exists>l r. s = l @ strip_chars chars s @ r \<and> set l \<subseteq> set chars \<and> set r \<subseteq> set chars"
proof -
  let ?P = "\<lambda>c. c \<in> set chars"
  let ?d = "dropWhile ?P s"
  have 1: "s = takeWhile ?P s @ ?d" by simp
  have 2: "?d = strip_chars chars s @ rev (takeWhile ?P (rev ?d))"
    unfolding strip_chars_def by (rule rev_split_while)
  have 3: "set (takeWhile ?P s) \<subseteq> set chars"
    using set_takeWhileD by fastforce
  have 4: "set (rev (takeWhile ?P (rev ?d))) \<subseteq> set chars"
    using set_takeWhileD by fastforce
  from 1 2 have "s = takeWhile ?P s @ strip_chars chars s @ rev (takeWhile ?P (rev ?d))"
    by metis
  with 3 4 show ?thesis by blast
qed

lemma strip_chars_ends:
  assumes "strip_chars chars s \<noteq> []"
  shows "hd (strip_chars chars s) \<notin> set chars \<and> last (strip_chars chars s) \<notin> set chars"
proof -
  let ?P = "\<lambda>c. c \<in> set chars"
  let ?d = "dropWhile ?P s"
  let ?e = "dropWhile ?P (rev ?d)"
  have r: "strip_chars chars s = rev ?e" by (simp add: strip_chars_def)
  with assms have ne: "?e \<noteq> []" by simp
  then have "\<not> ?P (hd ?e)" by (rule hd_dropWhile)
  then have l: "last (strip_chars chars s) \<notin> set chars"
    using r ne by (simp add: last_rev)
  have d: "?d = rev ?e @ rev (takeWhile ?P (rev ?d))"
    by (rule rev_split_while)
  have dne: "?d \<noteq> []"
  proof
    assume a: "?d = []"
    have "?e = []" by (simp only: a rev.simps dropWhile.simps)
    with ne show False by (simp only: not_True_eq_False simp_thms)
  qed
  then have "\<not> ?P (hd ?d)" by (rule hd_dropWhile)
  moreover from d ne have "hd ?d = hd (rev ?e)"
    by (metis hd_append2 rev_is_Nil_conv)
  ultimately have "hd (strip_chars chars s) \<notin> set chars" using r by simp
  with l show ?thesis by simp
qed

subsection \<open>The action parser\<close>

lemma search_group_None:
  "find_after m s = None \<Longrightarrow> search_group m s = None"
  by (simp add: search_group_def)

lemma search_group_Some:
  "find_after m s = Some rest \<Longrightarrow>
   search_group m s = Some (takeWhile (\<lambda>c. c \<noteq> 0x0A) (dropWhile isspace rest))"
  by (simp add: search_group_def)

lemma field_on_marker_line:
  assumes "find_after m s = Some rest"
    and "\<exists>c \<in> set (takeWhile (\<lambda>c. c \<noteq> 0x0A) rest). \<not> isspace c"
  shows "strip (takeWhile (\<lambda>c. c \<noteq> 0x0A) (dropWhile isspace rest)) = spec_field m s"
proof -
  have "strip (takeWhile (\<lambda>c. c \<noteq> 0x0A) (dropWhile isspace rest)) =
      strip (dropWhile isspace (takeWhile (\<lambda>c. c \<noteq> 0x0A) rest))"
    using first_line_content [OF assms(2)] by simp
  also have "\<dots> = strip (takeWhile (\<lambda>c. c \<noteq> 0x0A) rest)"
    by (rule strip_dropWhile)
  finally show ?thesis using assms(1) by (simp add: spec_field_def)
qed

text \<open>
  Claim C6, as amended. For every response text, each of the two fields is found by its own
  search: the leftmost occurrence of the literal marker (\<^verbatim>\<open>Action:\<close> for the action name,
  \<^verbatim>\<open>Action Input:\<close> for the argument) is located, all whitespace behind it is skipped,
  line feeds included, and the text from there up to the next line feed is taken and
  stripped. When the rest of the marker's own line holds a character that is not
  whitespace, this is the stripped content of that line behind the marker, as the
  specification words it (\<open>spec_field\<close>). A field whose marker is absent is the empty
  string; in particular the action name is empty when \<^verbatim>\<open>Action:\<close> occurs nowhere in the
  response. The parser is a total function of the text: it has no failing case.
\<close>

theorem extract_action_fields:
  "(find_after (u ''Action:'') response = None \<longrightarrow> fst (extract_action response) = []) \<and>
   (\<forall>rest. find_after (u ''Action:'') response = Some rest \<longrightarrow>
      fst (extract_action response) =
        strip (takeWhile (\<lambda>c. c \<noteq> 0x0A) (dropWhile isspace rest)) \<and>
      ((\<exists>c \<in> set (takeWhile (\<lambda>c. c \<noteq> 0x0A) rest). \<not> isspace c) \<longrightarrow>
         fst (extract_action response) = spec_field (u ''Action:'') response)) \<and>
   (find_after (u ''Action Input:'') response = None \<longrightarrow> snd (extract_action response) = []) \<and>
   (\<forall>rest. find_after (u ''Action Input:'') response = Some rest \<longrightarrow>
      snd (extract_action response) =
        strip (takeWhile (\<lambda>c. c \<noteq> 0x0A) (dropWhile isspace rest)) \<and>
      ((\<exists>c \<in> set (takeWhile (\<lambda>c. c \<noteq> 0x0A) rest). \<not> isspace c) \<longrightarrow>
         snd (extract_action response) = spec_field (u ''Action Input:'') response)) \<and>
   ((\<nexists>pre post. response = pre @ u ''Action:'' @ post) \<longrightarrow>
      fst (extract_action response) = [])"
proof -
  have a1: "find_after (u ''Action:'') response = None \<longrightarrow> fst (extract_action response) = []"
    by (simp add: extract_action_def Let_def search_group_None)
  have a2: "\<forall>rest. find_after (u ''Action:'') response = Some rest \<longrightarrow>
      fst (extract_action response) =
        strip (takeWhile (\<lambda>c. c \<noteq> 0x0A) (dropWhile isspace rest)) \<and>
      ((\<exists>c \<in> set (takeWhile (\<lambda>c. c \<noteq> 0x0A) rest). \<not> isspace c) \<longrightarrow>
         fst (extract_action response) = spec_field (u ''Action:'') response)"
  proof (intro allI impI)
    fix rest
    assume f: "find_after (u ''Action:'') response = Some rest"
    then have e: "fst (extract_action response) =
        strip (takeWhile (\<lambda>c. c \<noteq> 0x0A) (dropWhile isspace rest))"
      by (simp add: extract_action_def Let_def search_group_Some)
    moreover have "(\<exists>c \<in> set (takeWhile (\<lambda>c. c \<noteq> 0x0A) rest). \<not> isspace c) \<longrightarrow>
         fst (extract_action response) = spec_field (u ''Action:'') response"
      using e field_on_marker_line [OF f] by simp
    ultimately show "fst (extract_action response) =
        strip (takeWhile (\<lambda>c. c \<noteq> 0x0A) (dropWhile isspace rest)) \<and>
      ((\<exists>c \<in> set (takeWhile (\<lambda>c. c \<noteq> 0x0A) rest). \<not> isspace c) \<longrightarrow>
         fst (extract_action response) = spec_field (u ''Action:'') response)"
      by blast
  qed
  have b1: "find_after (u ''Action Input:'') response = None \<longrightarrow>
      snd (extract_action response) = []"
    by (simp add: extract_action_def Let_def search_group_None)
  have b2: "\<forall>rest. find_after (u ''Action Input:'') response = Some rest \<longrightarrow>
      snd (extract_action response) =
        strip (takeWhile (\<lambda>c. c \<noteq> 0x0A) (dropWhile isspace rest)) \<and>
      ((\<exists>c \<in> set (takeWhile (\<lambda>c. c \<noteq> 0x0A) rest). \<not> isspace c) \<longrightarrow>
         snd (extract_action response) = spec_field (u ''Action Input:'') response)"
  proof (intro allI impI)
    fix rest
    assume f: "find_after (u ''Action Input:'') response = Some rest"
    then have e: "snd (extract_action response) =
        strip (takeWhile (\<lambda>c. c \<noteq> 0x0A) (dropWhile isspace rest))"
      by (simp add: extract_action_def Let_def search_group_Some)
    moreover have "(\<exists>c \<in> set (takeWhile (\<lambda>c. c \<noteq> 0x0A) rest). \<not> isspace c) \<longrightarrow>
         snd (extract_action response) = spec_field (u ''Action Input:'') response"
      using e field_on_marker_line [OF f] by simp
    ultimately show "snd (extract_action response) =
        strip (takeWhile (\<lambda>c. c \<noteq> 0x0A) (dropWhile isspace rest)) \<and>
      ((\<exists>c \<in> set (takeWhile (\<lambda>c. c \<noteq> 0x0A) rest). \<not> isspace c) \<longrightarrow>
         snd (extract_action response) = spec_field (u ''Action Input:'') response)"
      by blast
  qed
  have c: "(\<nexists>pre post. response = pre @ u ''Action:'' @ post) \<longrightarrow>
      fst (extract_action response) = []"
    using a1 unfolding find_after_None_iff .
  from a1 a2 b1 b2 c show ?thesis by blast
qed

text \<open>
  The claim as stated fails where nothing but whitespace follows the marker on its line:
  for the response \<^verbatim>\<open>Action:\<close>, line feed, \<^verbatim>\<open>foo\<close> the content up to the end of the
  marker's line is empty, and the parser returns \<^verbatim>\<open>foo\<close> from the next line.
\<close>

theorem extract_action_next_line_counterexample:
  "fst (extract_action (u ''Action:'' @ [0x0A] @ u ''foo'')) = u ''foo'' \<and>
   spec_field (u ''Action:'') (u ''Action:'' @ [0x0A] @ u ''foo'') = []"
  by (simp add: extract_action_def search_group_def spec_field_def u_def starts_with_def
      isspace_def strip_def)

theorem extract_action_fields_witness:
  "find_after (u ''Action:'') final_answer_text = None \<and>
   find_after (u ''Action Input:'') final_answer_text = None \<and>
   (\<nexists>pre post. final_answer_text = pre @ u ''Action:'' @ post) \<and>
   extract_action final_answer_text = ([], []) \<and>
   find_after (u ''Action:'') tool_request_text =
     Some (u '' get_basic_info '' @ [0x0A] @ u ''Action Input: \"a\"'') \<and>
   (\<exists>c \<in> set (takeWhile (\<lambda>c. c \<noteq> 0x0A)
       (u '' get_basic_info '' @ [0x0A] @ u ''Action Input: \"a\"'')). \<not> isspace c) \<and>
   find_after (u ''Action Input:'') tool_request_text = Some (u '' \"a\"'') \<and>
   (\<exists>c \<in> set (takeWhile (\<lambda>c. c \<noteq> 0x0A) (u '' \"a\"'')). \<not> isspace c) \<and>
   extract_action tool_request_text = (u ''get_basic_info'', u ''\"a\"'') \<and>
   spec_field (u ''Action:'') tool_request_text = u ''get_basic_info'' \<and>
   spec_field (u ''Action Input:'') tool_request_text = u ''\"a\"''"
proof -
  have n1: "find_after (u ''Action:'') final_answer_text = None"
    by (simp add: final_answer_text_def u_def starts_with_def)
  have n2: "find_after (u ''Action Input:'') final_answer_text = None"
    by (simp add: final_answer_text_def u_def starts_with_def)
  have n3: "\<nexists>pre post. final_answer_text = pre @ u ''Action:'' @ post"
    using n1 unfolding find_after_None_iff .
  have s1: "find_after (u ''Action:'') tool_request_text =
     Some (u '' get_basic_info '' @ [0x0A] @ u ''Action Input: \"a\"'')"
    by (simp add: tool_request_text_def u_def starts_with_def)
  have s2: "\<exists>c \<in> set (takeWhile (\<lambda>c. c \<noteq> 0x0A)
       (u '' get_basic_info '' @ [0x0A] @ u ''Action Input: \"a\"'')). \<not> isspace c"
    by (simp add: u_def isspace_def)
  have s3: "find_after (u ''Action Input:'') tool_request_text = Some (u '' \"a\"'')"
    by (simp add: tool_request_text_def u_def starts_with_def)
  have s4: "\<exists>c \<in> set (takeWhile (\<lambda>c. c \<noteq> 0x0A) (u '' \"a\"'')). \<not> isspace c"
    by (simp add: u_def isspace_def)
  have v1: "spec_field (u ''Action:'') tool_request_text = u ''get_basic_info''"
    by (simp add: spec_field_def s1) (simp add: u_def strip_def isspace_def)
  have v2: "spec_field (u ''Action Input:'') tool_request_text = u ''\"a\"''"
    by (simp add: spec_field_def s3) (simp add: u_def strip_def isspace_def)
  from extract_action_fields [of final_answer_text] n1 n2
  have e1: "extract_action final_answer_text = ([], [])"
    by (simp add: prod_eq_iff)
  note t = extract_action_fields [of tool_request_text]
  from t s1 s2 have "fst (extract_action tool_request_text) =
      spec_field (u ''Action:'') tool_request_text"
    by blast
  moreover from t s3 s4 have "snd (extract_action tool_request_text) =
      spec_field (u ''Action Input:'') tool_request_text"
    by blast
  ultimately have e2: "extract_action tool_request_text = (u ''get_basic_info'', u ''\"a\"'')"
    using v1 v2 by (simp add: prod_eq_iff)
  from n1 n2 n3 s1 s2 s3 s4 v1 v2 e1 e2 show ?thesis by blast
qed

subsection \<open>Tool dispatch\<close>

lemma execute_action_registered:
  "tools a action = Some f \<Longrightarrow>
   execute_action rt a action raw = Inr (observation_of rt (invoke rt f action raw))"
  by (simp add: execute_action_def run_tool_def observation_of_def split: sum.splits)

lemma execute_action_unknown:
  "tools a action = None \<Longrightarrow>
   execute_action rt a action raw = Inr (unknown_action_text @ action)"
  by (simp add: execute_action_def)

lemma execute_action_returns: "\<exists>obs. execute_action rt a action raw = Inr obs"
  by (cases "tools a action") (simp_all add: execute_action_unknown execute_action_registered)


text \<open>
  Claim C5. For every action name and raw argument string, \<open>execute_action\<close> returns a
  string and raises nothing. A name without a registry entry gives the unknown-action text
  followed by the name. For a registered name, an exception of the dispatched call, or of
  the serialisation of its result, gives the execution-error text followed by \<^verbatim>\<open>str(e)\<close>;
  otherwise the serialised result is returned.
\<close>

theorem execute_action_never_raises:
  "(\<exists>obs. execute_action rt a action raw = Inr obs) \<and>
   (tools a action = None \<longrightarrow>
      execute_action rt a action raw = Inr (unknown_action_text @ action)) \<and>
   (\<forall>f e. tools a action = Some f \<and> invoke rt f action raw = Inl e \<longrightarrow>
      execute_action rt a action raw = Inr (execution_error_text @ exn_str e)) \<and>
   (\<forall>f v e. tools a action = Some f \<and> invoke rt f action raw = Inr v \<and>
        json_dumps rt v = Inl e \<longrightarrow>
      execute_action rt a action raw = Inr (execution_error_text @ exn_str e)) \<and>
   (\<forall>f v s. tools a action = Some f \<and> invoke rt f action raw = Inr v \<and>
        json_dumps rt v = Inr s \<longrightarrow>
      execute_action rt a action raw = Inr s)"
proof -
  have 1: "\<exists>obs. execute_action rt a action raw = Inr obs"
    by (rule execute_action_returns)
  have 2: "tools a action = None \<longrightarrow>
      execute_action rt a action raw = Inr (unknown_action_text @ action)"
    by (simp add: execute_action_unknown)
  have 3: "\<forall>f e. tools a action = Some f \<and> invoke rt f action raw = Inl e \<longrightarrow>
      execute_action rt a action raw = Inr (execution_error_text @ exn_str e)"
    by (simp add: execute_action_registered observation_of_def)
  have 4: "\<forall>f v e. tools a action = Some f \<and> invoke rt f action raw = Inr v \<and>
        json_dumps rt v = Inl e \<longrightarrow>
      execute_action rt a action raw = Inr (execution_error_text @ exn_str e)"
    by (simp add: execute_action_registered observation_of_def)
  have 5: "\<forall>f v s. tools a action = Some f \<and> invoke rt f action raw = Inr v \<and>
        json_dumps rt v = Inr s \<longrightarrow>
      execute_action rt a action raw = Inr s"
    by (simp add: execute_action_registered observation_of_def)
  from 1 2 3 4 5 show ?thesis by blast
qed

text \<open>
  Claim C7, as amended. For every single-string action, the dispatcher removes every leading
  and every trailing double quote from the raw argument text (\<^verbatim>\<open>str.strip('"')\<close>), not one
  layer, and passes what is left as the only argument: the raw text is that argument between
  two runs of double quotes, and the argument, when not empty, neither starts nor ends with
  a double quote.
\<close>

theorem single_string_dispatch:
  "action \<in> set single_string_actions \<and> tools a action = Some f \<longrightarrow>
     execute_action rt a action raw =
       Inr (observation_of rt (f (OneArg (PStr (strip_chars (u ''\"'') raw))))) \<and>
     (\<exists>l r. raw = l @ strip_chars (u ''\"'') raw @ r \<and> set l \<subseteq> {0x22} \<and> set r \<subseteq> {0x22}) \<and>
     (strip_chars (u ''\"'') raw \<noteq> [] \<longrightarrow>
        hd (strip_chars (u ''\"'') raw) \<noteq> 0x22 \<and> last (strip_chars (u ''\"'') raw) \<noteq> 0x22)"
proof (intro impI, elim conjE)
  assume s: "action \<in> set single_string_actions" and t: "tools a action = Some f"
  have q: "set (u ''\"'') = {0x22}" by (simp add: u_def)
  have 1: "execute_action rt a action raw =
       Inr (observation_of rt (f (OneArg (PStr (strip_chars (u ''\"'') raw)))))"
    using s by (simp add: execute_action_registered [OF t] invoke_def)
  have 2: "\<exists>l r. raw = l @ strip_chars (u ''\"'') raw @ r \<and> set l \<subseteq> {0x22} \<and> set r \<subseteq> {0x22}"
    using strip_chars_decompose [of raw "u ''\"''"] unfolding q .
  have 3: "strip_chars (u ''\"'') raw \<noteq> [] \<longrightarrow>
        hd (strip_chars (u ''\"'') raw) \<noteq> 0x22 \<and> last (strip_chars (u ''\"'') raw) \<noteq> 0x22"
    using strip_chars_ends [of "u ''\"''" raw] unfolding q by blast
  from 1 2 3 show "execute_action rt a action raw =
       Inr (observation_of rt (f (OneArg (PStr (strip_chars (u ''\"'') raw))))) \<and>
     (\<exists>l r. raw = l @ strip_chars (u ''\"'') raw @ r \<and> set l \<subseteq> {0x22} \<and> set r \<subseteq> {0x22}) \<and>
     (strip_chars (u ''\"'') raw \<noteq> [] \<longrightarrow>
        hd (strip_chars (u ''\"'') raw) \<noteq> 0x22 \<and> last (strip_chars (u ''\"'') raw) \<noteq> 0x22)"
    by blast
qed


lemma tools_sample: "tools (sample_agent cl m) = agent_tools sample_runtime [] empty_search"
  by (simp add: sample_agent_def init_def)

lemma tools_reporting:
  "tools reporting_agent (u ''fly'') = None"
  "tools reporting_agent (u ''get_basic_info'') = Some reporting_tool"
  "tools reporting_agent (u ''get_all_attractions'') = Some reporting_tool"
  by (simp_all add: reporting_agent_def u_def)

lemma sample_runtime_simps:
  "json_decode sample_runtime = sample_decode"
  "json_dumps sample_runtime = sample_dumps"
  by (simp_all add: sample_runtime_def)

lemma strip_quotes_samples:
  "strip_chars (u ''\"'') (u ''\"a\"'') = u ''a''"
  "strip_chars (u ''\"'') (u ''\"\"a\"\"'') = u ''a''"
  "strip_chars (u ''\"'') (u ''a'') = u ''a''"
  by (simp_all add: strip_chars_def u_def)

text \<open>
  The four cases at concrete inputs: an unknown name, a tool that raises, a result whose
  serialisation raises, and a call that succeeds.
\<close>

theorem execute_action_never_raises_witness:
  "tools reporting_agent (u ''fly'') = None \<and>
   execute_action sample_runtime reporting_agent (u ''fly'') (u ''a'') =
     Inr (unknown_action_text @ u ''fly'') \<and>
   tools reporting_agent (u ''get_basic_info'') = Some reporting_tool \<and>
   invoke sample_runtime reporting_tool (u ''get_basic_info'') (u ''\"a\"'') =
     Inl (PyExn (OtherException (u ''ValueError'')) (u ''a'')) \<and>
   execute_action sample_runtime reporting_agent (u ''get_basic_info'') (u ''\"a\"'') =
     Inr (execution_error_text @ u ''a'') \<and>
   tools reporting_agent (u ''get_all_attractions'') = Some reporting_tool \<and>
   invoke sample_runtime reporting_tool (u ''get_all_attractions'') [] = Inr (PInt 0) \<and>
   json_dumps sample_runtime (PInt 0) = Inl (PyExn TypeError (u ''not serializable'')) \<and>
   execute_action sample_runtime reporting_agent (u ''get_all_attractions'') [] =
     Inr (execution_error_text @ u ''not serializable'') \<and>
   tools (sample_agent answering_client (u ''qwen-flash'')) (u ''get_basic_info'') =
     Some (string_method (get_basic_info sample_runtime [])) \<and>
   invoke sample_runtime (string_method (get_basic_info sample_runtime []))
     (u ''get_basic_info'') (u ''\"a\"'') = Inr (PDict []) \<and>
   json_dumps sample_runtime (PDict []) = Inr (u ''{}'') \<and>
   execute_action sample_runtime (sample_agent answering_client (u ''qwen-flash''))
     (u ''get_basic_info'') (u ''\"a\"'') = Inr (u ''{}'')"
proof -
  let ?sa = "sample_agent answering_client (u ''qwen-flash'')"
  let ?g = "string_method (get_basic_info sample_runtime [])"
  have single: "u ''get_basic_info'' \<in> set single_string_actions"
    by (simp add: single_string_actions_def)
  have noarg: "u ''get_all_attractions'' \<notin> set single_string_actions"
    "u ''get_all_attractions'' \<noteq> u ''search_attractions''"
    by (simp_all add: single_string_actions_def u_def)
  have i1: "invoke sample_runtime reporting_tool (u ''get_basic_info'') (u ''\"a\"'') =
     Inl (PyExn (OtherException (u ''ValueError'')) (u ''a''))"
    using single by (simp add: invoke_def strip_quotes_samples reporting_tool_def)
  have i2: "invoke sample_runtime reporting_tool (u ''get_all_attractions'') [] = Inr (PInt 0)"
    using noarg by (simp add: invoke_def reporting_tool_def)
  have d2: "json_dumps sample_runtime (PInt 0) = Inl (PyExn TypeError (u ''not serializable''))"
    by (simp add: sample_runtime_simps sample_dumps_def)
  have t3: "tools ?sa (u ''get_basic_info'') = Some ?g"
    by (simp add: tools_sample agent_tools_def u_def)
  have i3: "invoke sample_runtime ?g (u ''get_basic_info'') (u ''\"a\"'') = Inr (PDict [])"
    using single
    by (simp add: invoke_def strip_quotes_samples string_method_def get_basic_info_def
        get_attraction_by_name_def)
  have d3: "json_dumps sample_runtime (PDict []) = Inr (u ''{}'')"
    by (simp add: sample_runtime_simps sample_dumps_def)
  note w1 = execute_action_never_raises [of sample_runtime reporting_agent "u ''fly''" "u ''a''"]
  note w2 = execute_action_never_raises
    [of sample_runtime reporting_agent "u ''get_basic_info''" "u ''\"a\"''"]
  note w3 = execute_action_never_raises
    [of sample_runtime reporting_agent "u ''get_all_attractions''" "[]"]
  note w4 = execute_action_never_raises [of sample_runtime ?sa "u ''get_basic_info''" "u ''\"a\"''"]
  from w1 tools_reporting(1)
  have r1: "execute_action sample_runtime reporting_agent (u ''fly'') (u ''a'') =
     Inr (unknown_action_text @ u ''fly'')"
    by blast
  from w2 tools_reporting(2) i1
  have r2: "execute_action sample_runtime reporting_agent (u ''get_basic_info'') (u ''\"a\"'') =
     Inr (execution_error_text @ exn_str (PyExn (OtherException (u ''ValueError'')) (u ''a'')))"
    by blast
  from w3 tools_reporting(3) i2 d2
  have r3: "execute_action sample_runtime reporting_agent (u ''get_all_attractions'') [] =
     Inr (execution_error_text @ exn_str (PyExn TypeError (u ''not serializable'')))"
    by blast
  from w4 t3 i3 d3
  have r4: "execute_action sample_runtime ?sa (u ''get_basic_info'') (u ''\"a\"'') = Inr (u ''{}'')"
    by blast
  from r2 have r2': "execute_action sample_runtime reporting_agent (u ''get_basic_info'')
      (u ''\"a\"'') = Inr (execution_error_text @ u ''a'')"
    by simp
  from r3 have r3': "execute_action sample_runtime reporting_agent (u ''get_all_attractions'') [] =
     Inr (execution_error_text @ u ''not serializable'')"
    by simp
  from tools_reporting r1 i1 r2' i2 d2 r3' t3 i3 d3 r4 show ?thesis by blast
qed

text \<open>
  At the raw text \<^verbatim>\<open>"a"\<close> the tool receives \<^verbatim>\<open>a\<close>: the sample tool raises with its
  argument as the text of the exception.
\<close>

theorem single_string_dispatch_witness:
  "u ''get_basic_info'' \<in> set single_string_actions \<and>
   tools reporting_agent (u ''get_basic_info'') = Some reporting_tool \<and>
   strip_chars (u ''\"'') (u ''\"a\"'') = u ''a'' \<and>
   u ''a'' \<noteq> [] \<and>
   execute_action sample_runtime reporting_agent (u ''get_basic_info'') (u ''\"a\"'') =
     Inr (execution_error_text @ u ''a'')"
proof -
  have single: "u ''get_basic_info'' \<in> set single_string_actions"
    by (simp add: single_string_actions_def)
  have ne: "u ''a'' \<noteq> []" by (simp add: u_def)
  from single_string_dispatch [of "u ''get_basic_info''" reporting_agent reporting_tool
      sample_runtime "u ''\"a\"''"] single tools_reporting(2)
  have "execute_action sample_runtime reporting_agent (u ''get_basic_info'') (u ''\"a\"'') =
      Inr (observation_of sample_runtime
        (reporting_tool (OneArg (PStr (strip_chars (u ''\"'') (u ''\"a\"''))))))"
    by blast
  then have "execute_action sample_runtime reporting_agent (u ''get_basic_info'') (u ''\"a\"'') =
     Inr (execution_error_text @ u ''a'')"
    by (simp add: strip_quotes_samples reporting_tool_def observation_of_def)
  with single tools_reporting(2) strip_quotes_samples(1) ne show ?thesis by blast
qed

text \<open>
  The claim as stated fails on two layers of quotes: for the raw text \<^verbatim>\<open>""a""\<close> the tool
  receives \<^verbatim>\<open>a\<close>, where the removal of one layer leaves \<^verbatim>\<open>"a"\<close>.
\<close>

theorem single_string_two_layers_counterexample:
  "execute_action sample_runtime reporting_agent (u ''get_basic_info'') (u ''\"\"a\"\"'') =
     Inr (execution_error_text @ u ''a'') \<and>
   strip_one_layer (u ''\"\"a\"\"'') = u ''\"a\"'' \<and>
   u ''a'' \<noteq> u ''\"a\"''"
proof -
  have single: "u ''get_basic_info'' \<in> set single_string_actions"
    by (simp add: single_string_actions_def)
  have 1: "execute_action sample_runtime reporting_agent (u ''get_basic_info'') (u ''\"\"a\"\"'') =
     Inr (execution_error_text @ u ''a'')"
    using single
    by (simp add: execute_action_def tools_reporting run_tool_def invoke_def
        strip_quotes_samples reporting_tool_def)
  have 2: "strip_one_layer (u ''\"\"a\"\"'') = u ''\"a\"''"
    by (simp add: strip_one_layer_def u_def)
  have 3: "u ''a'' \<noteq> u ''\"a\"''" by (simp add: u_def)
  from 1 2 3 show ?thesis by blast
qed


subsection \<open>The transportation query\<close>









lemma type_error_not_decode: "exn_class_of (PyExn TypeError msg) \<noteq> JSONDecodeError"
  by simp









subsection \<open>The planning loop\<close>

lemma account_for_fields [simp]:
  "model (account_for a r) = model a"
  "budget_limit (account_for a r) = budget_limit a"
  "max_iterations (account_for a r) = max_iterations a"
  "client (account_for a r) = client a"
  "tools (account_for a r) = tools a"
  "total_cost (account_for a r) =
     total_cost a + calculate_cost a (prompt_tokens r) (completion_tokens r)"
  "total_prompt_tokens (account_for a r) = total_prompt_tokens a + prompt_tokens r"
  "total_completion_tokens (account_for a r) = total_completion_tokens a + completion_tokens r"
  by (simp_all add: account_for_def)
























lemma no_marker_no_action:
  assumes "\<nexists>pre post. s = pre @ u ''Action:'' @ post"
  shows "fst (extract_action s) = []"
proof -
  from assms have "find_after (u ''Action:'') s = None"
    unfolding find_after_None_iff .
  then show ?thesis by (simp add: extract_action_def Let_def search_group_None)
qed

lemma react_loop_answer:
  assumes "total_cost a < budget_limit a"
    and "client a (model a) h 0.7 = Inr r"
    and "fst (extract_action (choice_content r)) = []"
  shows "react_loop rt (Suc n) a h =
     (Inr (choice_content r @
           cost_info rt (account_for a r) (prompt_tokens r) (completion_tokens r)
             (calculate_cost a (prompt_tokens r) (completion_tokens r))),
      account_for a r,
      [\<lparr>request = h, reply = Inr r, account = account_for a r\<rparr>])"
  using assms by (simp add: Let_def)




lemma plan_travel_first_answer:
  assumes "total_cost a < budget_limit a" and "0 < max_iterations a"
    and "client a (model a)
           [\<lparr>role = u ''system'', content = system_prompt\<rparr>,
            \<lparr>role = u ''user'', content = query\<rparr>] 0.7 = Inr r"
    and "fst (extract_action (choice_content r)) = []"
  shows "plan_travel rt a query =
     (Inr (choice_content r @
           cost_info rt (account_for a r) (prompt_tokens r) (completion_tokens r)
             (calculate_cost a (prompt_tokens r) (completion_tokens r))),
      account_for a r,
      [\<lparr>request = [\<lparr>role = u ''system'', content = system_prompt\<rparr>,
                   \<lparr>role = u ''user'', content = query\<rparr>],
        reply = Inr r, account = account_for a r\<rparr>])"
proof -
  from assms(2) obtain n where n: "max_iterations a = Suc n"
    by (cases "max_iterations a") simp_all
  from assms(1) have "plan_travel rt a query = react_loop rt (Suc n) a
      [\<lparr>role = u ''system'', content = system_prompt\<rparr>,
       \<lparr>role = u ''user'', content = query\<rparr>]"
    by (simp add: plan_travel_def n)
  with react_loop_answer [OF assms(1) assms(3) assms(4)] show ?thesis by simp
qed

text \<open>
  Claim C3. If the accumulated cost is below the limit, the cap is not zero, and the first
  response of the model does not contain \<^verbatim>\<open>Action:\<close>, the run sends exactly one request and
  returns the response followed by the cost suffix; the suffix holds the token count and
  cost of this call and the accumulated token count and cost of the agent.
\<close>

theorem final_answer_on_first_turn:
  "total_cost a < budget_limit a \<and> 0 < max_iterations a \<and>
   client a (model a)
     [\<lparr>role = u ''system'', content = system_prompt\<rparr>,
      \<lparr>role = u ''user'', content = query\<rparr>] 0.7 = Inr r \<and>
   (\<nexists>pre post. choice_content r = pre @ u ''Action:'' @ post) \<longrightarrow>
     plan_travel rt a query =
       (Inr (choice_content r @
             cost_info rt (account_for a r) (prompt_tokens r) (completion_tokens r)
               (calculate_cost a (prompt_tokens r) (completion_tokens r))),
        account_for a r,
        [\<lparr>request = [\<lparr>role = u ''system'', content = system_prompt\<rparr>,
                     \<lparr>role = u ''user'', content = query\<rparr>],
          reply = Inr r, account = account_for a r\<rparr>]) \<and>
     (\<exists>l1 l2 l3 l4 l5.
        cost_info rt (account_for a r) (prompt_tokens r) (completion_tokens r)
          (calculate_cost a (prompt_tokens r) (completion_tokens r)) =
        l1 @ str_int (prompt_tokens r + completion_tokens r) @
        l2 @ format_4f rt (calculate_cost a (prompt_tokens r) (completion_tokens r)) @
        l3 @ str_int (total_prompt_tokens a + prompt_tokens r +
                      (total_completion_tokens a + completion_tokens r)) @
        l4 @ format_4f rt
               (total_cost a + calculate_cost a (prompt_tokens r) (completion_tokens r)) @
        l5)"
proof (intro impI, elim conjE)
  assume b: "total_cost a < budget_limit a" and n: "0 < max_iterations a"
    and c: "client a (model a)
     [\<lparr>role = u ''system'', content = system_prompt\<rparr>,
      \<lparr>role = u ''user'', content = query\<rparr>] 0.7 = Inr r"
    and no: "\<nexists>pre post. choice_content r = pre @ u ''Action:'' @ post"
  note 1 = plan_travel_first_answer [OF b n c no_marker_no_action [OF no], of rt]
  have 2: "\<exists>l1 l2 l3 l4 l5.
        cost_info rt (account_for a r) (prompt_tokens r) (completion_tokens r)
          (calculate_cost a (prompt_tokens r) (completion_tokens r)) =
        l1 @ str_int (prompt_tokens r + completion_tokens r) @
        l2 @ format_4f rt (calculate_cost a (prompt_tokens r) (completion_tokens r)) @
        l3 @ str_int (total_prompt_tokens a + prompt_tokens r +
                      (total_completion_tokens a + completion_tokens r)) @
        l4 @ format_4f rt
               (total_cost a + calculate_cost a (prompt_tokens r) (completion_tokens r)) @
        l5"
    unfolding cost_info_def account_for_fields by blast
  from 1 2 show "plan_travel rt a query =
       (Inr (choice_content r @
             cost_info rt (account_for a r) (prompt_tokens r) (completion_tokens r)
               (calculate_cost a (prompt_tokens r) (completion_tokens r))),
        account_for a r,
        [\<lparr>request = [\<lparr>role = u ''system'', content = system_prompt\<rparr>,
                     \<lparr>role = u ''user'', content = query\<rparr>],
          reply = Inr r, account = account_for a r\<rparr>]) \<and>
     (\<exists>l1 l2 l3 l4 l5.
        cost_info rt (account_for a r) (prompt_tokens r) (completion_tokens r)
          (calculate_cost a (prompt_tokens r) (completion_tokens r)) =
        l1 @ str_int (prompt_tokens r + completion_tokens r) @
        l2 @ format_4f rt (calculate_cost a (prompt_tokens r) (completion_tokens r)) @
        l3 @ str_int (total_prompt_tokens a + prompt_tokens r +
                      (total_completion_tokens a + completion_tokens r)) @
        l4 @ format_4f rt
               (total_cost a + calculate_cost a (prompt_tokens r) (completion_tokens r)) @
        l5)"
    by blast
qed

subsection \<open>The sample runs\<close>



lemma sample_agent_fields:
  "client (sample_agent cl m) = cl"
  "budget_limit (sample_agent cl m) = 0.1"
  "total_cost (sample_agent cl m) = 0"
  "total_prompt_tokens (sample_agent cl m) = 0"
  "total_completion_tokens (sample_agent cl m) = 0"
  "max_iterations (sample_agent cl m) = 10"
  by (simp_all add: sample_agent_def init_def)

lemma sample_costs:
  "calculate_cost (sample_agent cl (u ''qwen-flash'')) 1000 0 = 0.0003"
  "calculate_cost (sample_agent cl (u ''qwen-max'')) 2000 1000 = 0.2"
  "calculate_cost (sample_agent cl (u ''qwen-flash'')) 2000 1000 = 0.0012"
  by (simp_all add: calculate_cost_def MODEL_PRICING_def u_def)

lemma final_answer_no_marker: "\<nexists>pre post. final_answer_text = pre @ u ''Action:'' @ post"
proof -
  have "find_after (u ''Action:'') final_answer_text = None"
    by (simp add: final_answer_text_def u_def starts_with_def)
  then show ?thesis unfolding find_after_None_iff .
qed







text \<open>
  The model that answers at once, on \<^verbatim>\<open>qwen-flash\<close>: one request, which costs 0.0012.
\<close>

theorem final_answer_on_first_turn_witness:
  "total_cost (sample_agent answering_client (u ''qwen-flash'')) <
     budget_limit (sample_agent answering_client (u ''qwen-flash'')) \<and>
   0 < max_iterations (sample_agent answering_client (u ''qwen-flash'')) \<and>
   client (sample_agent answering_client (u ''qwen-flash''))
     (model (sample_agent answering_client (u ''qwen-flash'')))
     [\<lparr>role = u ''system'', content = system_prompt\<rparr>,
      \<lparr>role = u ''user'', content = u ''plan''\<rparr>] 0.7 = Inr sample_answer \<and>
   (\<nexists>pre post. choice_content sample_answer = pre @ u ''Action:'' @ post) \<and>
   plan_travel sample_runtime (sample_agent answering_client (u ''qwen-flash'')) (u ''plan'') =
     (Inr (final_answer_text @
           cost_info sample_runtime
             (account_for (sample_agent answering_client (u ''qwen-flash'')) sample_answer)
             2000 1000 0.0012),
      account_for (sample_agent answering_client (u ''qwen-flash'')) sample_answer,
      [\<lparr>request = [\<lparr>role = u ''system'', content = system_prompt\<rparr>,
                   \<lparr>role = u ''user'', content = u ''plan''\<rparr>],
        reply = Inr sample_answer,
        account = account_for (sample_agent answering_client (u ''qwen-flash'')) sample_answer\<rparr>])"
proof -
  let ?A = "sample_agent answering_client (u ''qwen-flash'')"
  have b: "total_cost ?A < budget_limit ?A" by (simp add: sample_agent_fields)
  have n: "0 < max_iterations ?A" by (simp add: sample_agent_fields)
  have c: "client ?A (model ?A)
      [\<lparr>role = u ''system'', content = system_prompt\<rparr>,
       \<lparr>role = u ''user'', content = u ''plan''\<rparr>] 0.7 = Inr sample_answer"
    by (simp add: sample_agent_fields answering_client_def)
  have no: "\<nexists>pre post. choice_content sample_answer = pre @ u ''Action:'' @ post"
    using final_answer_no_marker by (simp add: sample_answer_def)
  from final_answer_on_first_turn [of ?A "u ''plan''" sample_answer sample_runtime] b n c no
  have "plan_travel sample_runtime ?A (u ''plan'') =
       (Inr (choice_content sample_answer @
             cost_info sample_runtime (account_for ?A sample_answer)
               (prompt_tokens sample_answer) (completion_tokens sample_answer)
               (calculate_cost ?A (prompt_tokens sample_answer)
                  (completion_tokens sample_answer))),
        account_for ?A sample_answer,
        [\<lparr>request = [\<lparr>role = u ''system'', content = system_prompt\<rparr>,
                     \<lparr>role = u ''user'', content = u ''plan''\<rparr>],
          reply = Inr sample_answer, account = account_for ?A sample_answer\<rparr>])"
    by blast
  moreover have "choice_content sample_answer = final_answer_text"
    "prompt_tokens sample_answer = 2000" "completion_tokens sample_answer = 1000"
    by (simp_all add: sample_answer_def)
  ultimately have r: "plan_travel sample_runtime ?A (u ''plan'') =
     (Inr (final_answer_text @
           cost_info sample_runtime (account_for ?A sample_answer) 2000 1000 0.0012),
      account_for ?A sample_answer,
      [\<lparr>request = [\<lparr>role = u ''system'', content = system_prompt\<rparr>,
                   \<lparr>role = u ''user'', content = u ''plan''\<rparr>],
        reply = Inr sample_answer, account = account_for ?A sample_answer\<rparr>])"
    by (simp add: sample_costs)
  from b n c no r show ?thesis by blast
qed



end
